theory Spec2Isabelle
  imports Complex_Main "HOL-Library.AList"
begin

section \<open>Tables\<close>

text \<open>
  The notebooks work on tables of the library (halo tables, galaxy tables): ordered,
  named columns, each with a dtype and one entry per row. A table is an association
  list from the column name to the dtype tag and the column's data, in column order.
  The cells are values of one type \<open>'a\<close>, and the dtype of a column is the tag the code
  passes (\<open>''f4''\<close>, \<open>''i4''\<close>). What NumPy does to a cell (the division of an array by
  a float, the conversion to the dtype of the column a value is stored in) is not code
  of the repository and is a parameter of the functions that use it.
\<close>

datatype error =
    KeyError string
  | ValueError
  | TypeError
  | NameError string
  | AttributeError string
  | HalotoolsError string

type_synonym 'a column = "string \<times> 'a list"

type_synonym 'a table = "(string \<times> 'a column) list"

definition keys :: "'a table \<Rightarrow> string list" where
  "keys table = map fst table"

text \<open>All columns of a table have the same number of rows.\<close>

fun wf_table :: "'a table \<Rightarrow> bool" where
  "wf_table [] = True"
| "wf_table ((name, dtype, column) # cs) =
     (list_all (\<lambda>c. length (snd (snd c)) = length column) cs)"

text \<open>\<open>table[name]\<close>: the column, or KeyError.\<close>

definition getitem :: "'a table \<Rightarrow> string \<Rightarrow> error + 'a column" where
  "getitem table name =
     (case map_of table name of None \<Rightarrow> Inl (KeyError name) | Some c \<Rightarrow> Inr c)"

text \<open>
  NumPy, as far as \<open>Size.assign_size\<close> uses it. \<open>true_divide\<close>: for the dtype of an
  array, the dtype of its quotient by a Python float and the quotient of one entry, or
  nothing when arrays of that dtype cannot be divided (TypeError). \<open>astype\<close>: the
  conversion of an entry from one dtype to another when it is stored, or nothing when
  there is none (TypeError). The Python float is given by its value.
\<close>

record 'a numpy =
  true_divide :: "string \<Rightarrow> (string \<times> ('a \<Rightarrow> real \<Rightarrow> 'a)) option"
  astype :: "string \<Rightarrow> string \<Rightarrow> ('a \<Rightarrow> 'a) option"

text \<open>
  \<open>table[name][:] = array\<close>: the assignment to the whole slice writes into the existing
  column, which keeps its dtype and its length: every value is converted to the dtype
  of the column; values of the same length are stored row by row, a single value is
  broadcast to every row, anything else does not fit.
\<close>

definition setslice :: "'a numpy \<Rightarrow> 'a table \<Rightarrow> string \<Rightarrow> 'a column \<Rightarrow> error + 'a table" where
  "setslice np table name array =
     (case map_of table name of
        None \<Rightarrow> Inl (KeyError name)
      | Some (dtype, column) \<Rightarrow>
          (case astype np (fst array) dtype of
             None \<Rightarrow> Inl TypeError
           | Some convert \<Rightarrow>
               if length (snd array) = length column
               then Inr (AList.update name (dtype, map convert (snd array)) table)
               else (case snd array of
                       [v] \<Rightarrow>
                         Inr (AList.update name
                                (dtype, replicate (length column) (convert v)) table)
                     | _ \<Rightarrow> Inl ValueError)))"

text \<open>\<open>column / divisor\<close>: the quotient array, with its own dtype, or TypeError.\<close>

definition truediv :: "'a numpy \<Rightarrow> 'a column \<Rightarrow> real \<Rightarrow> error + 'a column" where
  "truediv np column divisor =
     (case true_divide np (fst column) of
        None \<Rightarrow> Inl TypeError
      | Some (dtype, entry_quotient) \<Rightarrow>
          Inr (dtype, map (\<lambda>x. entry_quotient x divisor) (snd column)))"

section \<open>The component model Size\<close>

text \<open>
  \<^verbatim>\<open>
  class Size(object):

      def __init__(self, gal_type):

          self.gal_type = gal_type
          self._mock_generation_calling_sequence = ['assign_size']
          self._galprop_dtypes_to_allocate = np.dtype([('galsize', 'f4')])
          self.list_of_haloprops_needed = ['halo_spin']

      def assign_size(self, **kwargs):
          table = kwargs['table']
          table['galsize'][:] = table['halo_spin']/5.
  \<close>
  The fields keep the attributes' names, without the leading underscore of the two
  private ones.
\<close>

record Size =
  gal_type :: string
  mock_generation_calling_sequence :: "string list"
  galprop_dtypes_to_allocate :: "(string \<times> string) list"
  list_of_haloprops_needed :: "string list"

definition Size_init :: "string \<Rightarrow> Size" where
  "Size_init g =
     \<lparr> gal_type = g,
       mock_generation_calling_sequence = [''assign_size''],
       galprop_dtypes_to_allocate = [(''galsize'', ''f4'')],
       list_of_haloprops_needed = [''halo_spin''] \<rparr>"

text \<open>
  \<open>assign_size\<close> mutates the table it is passed under the keyword \<open>table\<close> and returns
  nothing; the model returns the table as it is afterwards. The right-hand side is
  evaluated first, so a missing \<open>halo_spin\<close> and a \<open>halo_spin\<close> that cannot be divided
  are reported before a missing \<open>galsize\<close>. The quotient is NumPy's, in the quotient's
  own dtype, and the assignment converts it to the dtype of the \<open>galsize\<close> column.
\<close>

definition assign_size :: "'a numpy \<Rightarrow> Size \<Rightarrow> (string \<rightharpoonup> 'a table) \<Rightarrow> error + 'a table" where
  "assign_size np self kwargs =
     (case kwargs ''table'' of
        None \<Rightarrow> Inl (KeyError ''table'')
      | Some table \<Rightarrow>
          (case getitem table ''halo_spin'' of
             Inl e \<Rightarrow> Inl e
           | Inr halo_spin \<Rightarrow>
               (case truediv np halo_spin 5 of
                  Inl e \<Rightarrow> Inl e
                | Inr ratio \<Rightarrow>
                    (case getitem table ''galsize'' of
                       Inl e \<Rightarrow> Inl e
                     | Inr galsize \<Rightarrow> setslice np table ''galsize'' ratio))))"

text \<open>
  An instance of NumPy for the examples, on real numbers and for the four numeric dtypes
  the examples use: a float array keeps its dtype under division, an integer array gives
  \<open>f8\<close>; storing into an integer column truncates toward zero, storing into a float
  column rounds to the format. The instance computes in the reals and does not round,
  so it is NumPy's arithmetic only on values that the formats hold exactly, as those of
  the examples are (\<open>7.5 / 5.\<close> is \<open>1.5\<close> in \<open>f4\<close> and in \<open>f8\<close>). The only other dtype
  of the examples is the byte string \<open>S8\<close>, as the dtype of an array to divide: NumPy
  has no division for it.
\<close>

definition exact_numpy :: "real numpy" where
  "exact_numpy =
     \<lparr> true_divide =
         (\<lambda>dtype. if dtype = ''f4'' \<or> dtype = ''f8'' then Some (dtype, \<lambda>x d. x / d)
                  else if dtype = ''i4'' \<or> dtype = ''i8'' then Some (''f8'', \<lambda>x d. x / d)
                  else None),
       astype =
         (\<lambda>from to. if to = ''f4'' \<or> to = ''f8'' then Some (\<lambda>x. x)
                    else if to = ''i4'' \<or> to = ''i8''
                    then Some (\<lambda>x. of_int (if 0 \<le> x then \<lfloor>x\<rfloor> else \<lceil>x\<rceil>))
                    else None) \<rparr>"

section \<open>Counting the subhalos of each halo\<close>

text \<open>
  \<^verbatim>\<open>
  grouping_key = 'halo_hostid'
  new_colname, new_coltype = 'num_subhalos', 'i4'

  def count_subhalos(x):
      return len(x)-1
  aggregation_function = count_subhalos
  colnames_needed_by_function = ['halo_hostid']

  add_new_table_column(halos,
          new_colname, new_coltype, grouping_key,
          aggregation_function, colnames_needed_by_function)
  \<close>
\<close>

definition count_subhalos :: "'x list \<Rightarrow> int" where
  "count_subhalos x = int (length x) - 1"

text \<open>A call \<open>f(*args)\<close> of a function of one parameter: one argument, or TypeError.\<close>

definition call1 :: "('x \<Rightarrow> 'r) \<Rightarrow> 'x list \<Rightarrow> error + 'r" where
  "call1 f args = (case args of [x] \<Rightarrow> Inr (f x) | _ \<Rightarrow> Inl TypeError)"

text \<open>The results of a sequence of calls, or the first error among them.\<close>

fun collect :: "(error + 'r) list \<Rightarrow> error + 'r list" where
  "collect [] = Inr []"
| "collect (r # rs) =
     (case r of
        Inl e \<Rightarrow> Inl e
      | Inr x \<Rightarrow> (case collect rs of Inl e \<Rightarrow> Inl e | Inr xs \<Rightarrow> Inr (x # xs)))"

text \<open>The entries of a column in the rows whose grouping key is \<open>k\<close>.\<close>

definition group_members :: "'k list \<Rightarrow> 'k \<Rightarrow> 'a list \<Rightarrow> 'a list" where
  "group_members group_ids k column =
     map snd (filter (\<lambda>(k', v). k' = k) (zip group_ids column))"

text \<open>
  Modelled from the spec: the library function \<open>add_new_table_column\<close> of
  \<open>halotools.utils\<close> is not among the sources; only this call of it is. The spec
  names it "column aggregation", and the notebook says of this call that the grouping
  key is used "to calculate N_sub and broadcast the result to the members of the halo",
  and that "the aggregation function operates on the members of each halo". So: the rows
  are grouped by the value of the grouping key, the aggregation function is called on
  the needed columns restricted to the members of a group, and its result is stored in
  the new column, of the given dtype, in every row of the group.
\<close>

definition add_new_table_column ::
  "'a table \<Rightarrow> string \<Rightarrow> string \<Rightarrow> string \<Rightarrow> ('a list list \<Rightarrow> error + 'a) \<Rightarrow> string list
     \<Rightarrow> error + 'a table" where
  "add_new_table_column table new_colname new_coltype grouping_key aggregation_function
     colnames_needed_by_function =
     (case getitem table grouping_key of
        Inl e \<Rightarrow> Inl e
      | Inr group_ids \<Rightarrow>
          (case collect (map (getitem table) colnames_needed_by_function) of
             Inl e \<Rightarrow> Inl e
           | Inr func_arglist \<Rightarrow>
               (case collect
                       (map (\<lambda>k. aggregation_function
                                   (map (\<lambda>c. group_members (snd group_ids) k (snd c))
                                      func_arglist))
                          (snd group_ids)) of
                  Inl e \<Rightarrow> Inl e
                | Inr result \<Rightarrow> Inr (AList.update new_colname (new_coltype, result) table))))"

text \<open>
  The cell of the notebook. \<open>count_subhalos\<close> returns a Python integer, which the table
  stores as a number of its cells' type.
\<close>

definition add_num_subhalos :: "('a::ring_1) table \<Rightarrow> error + 'a table" where
  "add_num_subhalos halos =
     (let grouping_key = ''halo_hostid'';
          (new_colname, new_coltype) = (''num_subhalos'', ''i4'');
          aggregation_function = (\<lambda>args. map_sum id of_int (call1 count_subhalos args));
          colnames_needed_by_function = [''halo_hostid'']
      in add_new_table_column halos new_colname new_coltype grouping_key
           aggregation_function colnames_needed_by_function)"

section \<open>Mock population\<close>

text \<open>
  The model factories and \<open>populate_mock\<close> belong to \<open>halotools.empirical_models\<close>,
  which is not among the sources: the notebooks call them, describe them, and show one
  traceback through them. The definitions of this section follow those words.
\<close>

text \<open>
  Modelled from the spec: what the library reads of a component model, which is missing
  from the sources. The class \<open>Size\<close> shows the interface: the names of the methods to
  call (\<open>_mock_generation_calling_sequence\<close>), the galaxy properties to allocate with
  their dtypes (\<open>_galprop_dtypes_to_allocate\<close>), the halo properties needed
  (\<open>list_of_haloprops_needed\<close>), and the methods themselves, each called with the
  keyword \<open>table\<close>.
\<close>

record 'a component =
  calling_sequence :: "string list"
  galprop_dtypes :: "(string \<times> string) list"
  haloprops_needed :: "string list"
  methods :: "string \<rightharpoonup> ((string \<rightharpoonup> 'a table) \<Rightarrow> error + 'a table)"

text \<open>An instance of the notebook's class \<open>Size\<close>, as the library sees it.\<close>

definition Size_component :: "'a numpy \<Rightarrow> Size \<Rightarrow> 'a component" where
  "Size_component np self =
     \<lparr> calling_sequence = mock_generation_calling_sequence self,
       galprop_dtypes = galprop_dtypes_to_allocate self,
       haloprops_needed = list_of_haloprops_needed self,
       methods = [''assign_size'' \<mapsto> assign_size np self] \<rparr>"

text \<open>
  Modelled from the spec: the mock bound to a model, missing from the sources. The
  notebook: a halo catalog "is loaded into memory ... and bound to the model object",
  and the model then "has a \<open>mock\<close> attribute containing a \<open>galaxy_table\<close>"; the traceback
  reads \<open>self.mock.simname\<close>.
\<close>

record 'a mock =
  simname :: string
  halo_table :: "'a table"
  galaxy_table :: "'a table"

text \<open>
  Modelled from the spec: a composite model, missing from the sources: the component
  models under the keywords they were passed with, and the mock once there is one. The
  notebook calls the keyword "a nickname used as an internal bookkeeping device".
\<close>

record 'a model =
  model_dictionary :: "(string \<times> 'a component) list"
  mock :: "'a mock option"

text \<open>
  Modelled from the spec: the factory \<open>SubhaloModelFactory(**kwargs)\<close>, missing from the
  sources: a new model holds the components it is given and has no mock yet.
\<close>

definition SubhaloModelFactory :: "(string \<times> 'a component) list \<Rightarrow> 'a model" where
  "SubhaloModelFactory kwargs = \<lparr> model_dictionary = kwargs, mock = None \<rparr>"

text \<open>
  Modelled from the spec: the halo catalogs the library can retrieve, missing from the
  sources: the catalogs in the cache by simulation name (the notebook: "you will need to
  have downloaded the default Halotools catalog"), the fake simulation "generated
  on-the-fly", and the default simulation name (\<open>sim_defaults.default_simname\<close> in the
  traceback).
\<close>

record 'a simulations =
  cache :: "string \<rightharpoonup> 'a table"
  fake_sim :: "'a table"
  default_simname :: string

text \<open>
  Modelled from the spec: catalog retrieval, missing from the sources. A simulation
  that is neither \<open>fake\<close> nor in the cache cannot be loaded; the text of that error is
  not in the sources, and the model reports the simulation name.
\<close>

definition load_halo_table :: "'a simulations \<Rightarrow> string \<Rightarrow> error + 'a table" where
  "load_halo_table sims s =
     (if s = ''fake'' then Inr (fake_sim sims)
      else (case cache sims s of None \<Rightarrow> Inl (HalotoolsError s) | Some t \<Rightarrow> Inr t))"

text \<open>The number of rows of a table: the length of its columns.\<close>

definition nrows :: "'a table \<Rightarrow> nat" where
  "nrows table = (case table of [] \<Rightarrow> 0 | c # cs \<Rightarrow> length (snd (snd c)))"

text \<open>
  Modelled from the spec: the allocation of the galaxy properties, missing from the
  sources: one column for each declared property, under the declared name and dtype
  ("the name \<open>stellar_mass\<close> was set in the source code for the \<open>Behroozi10SmHm\<close> class
  via the \<open>_galprop_dtypes_to_allocate\<close> mechanism").
\<close>

definition allocate :: "(string \<times> string) list \<Rightarrow> nat \<Rightarrow> ('a::zero) table \<Rightarrow> 'a table" where
  "allocate dtypes n table =
     foldl (\<lambda>t d. AList.update (fst d) (snd d, replicate n 0) t) table dtypes"

text \<open>
  Modelled from the spec: the calls of a component's methods in the order of its
  calling sequence, missing from the sources; each method gets the table under the
  keyword \<open>table\<close>, as \<open>Size.assign_size\<close> expects, and works on it in place.
\<close>

fun call_sequence :: "'a component \<Rightarrow> string list \<Rightarrow> 'a table \<Rightarrow> error + 'a table" where
  "call_sequence c [] t = Inr t"
| "call_sequence c (m # ms) t =
     (case methods c m of
        None \<Rightarrow> Inl (AttributeError m)
      | Some f \<Rightarrow> (case f [''table'' \<mapsto> t] of Inl e \<Rightarrow> Inl e | Inr t' \<Rightarrow> call_sequence c ms t'))"

text \<open>
  Modelled from the spec: the components of a model are called one after the other, in
  the order of the model's dictionary; missing from the sources.
\<close>

fun call_components :: "'a component list \<Rightarrow> 'a table \<Rightarrow> error + 'a table" where
  "call_components [] t = Inr t"
| "call_components (c # cs) t =
     (case call_sequence c (calling_sequence c) t of
        Inl e \<Rightarrow> Inl e
      | Inr t' \<Rightarrow> call_components cs t')"

text \<open>
  Modelled from the spec: \<open>mock.populate()\<close>, missing from the sources; the spec calls
  it "generating a synthetic galaxy catalog from a halo catalog and a model". The galaxy
  table carries the halo properties, the needed ones must be there, the declared galaxy
  properties are allocated, and the components fill them. One galaxy per halo, as in a
  subhalo-based model; how many galaxies an HOD model draws per halo is outside the
  model.
\<close>

definition populate :: "('a::zero) component list \<Rightarrow> 'a table \<Rightarrow> error + 'a table" where
  "populate components halos =
     (case collect (map (getitem halos) (concat (map haloprops_needed components))) of
        Inl e \<Rightarrow> Inl e
      | Inr needed \<Rightarrow>
          call_components components
            (allocate (concat (map galprop_dtypes components)) (nrows halos) halos))"

text \<open>
  Modelled from the spec: the message of the inconsistency error, missing from the
  sources as code; the text is the one the notebook's traceback shows, where the code
  is \<open>inconsistent_simname_error_msg % (self.mock.simname, simname)\<close>.
\<close>

definition inconsistent_simname_error_msg :: "string \<Rightarrow> string \<Rightarrow> string" where
  "inconsistent_simname_error_msg bound passed =
     ''Inconsistency between the simname already bound to the existing mock = ``'' @ bound
       @ ''`` and the simname passed as a keyword argument = ``'' @ passed @ ''``.''
       @ [CHR 0x0A]
       @ ''You should instantiate a new model object if you wish to switch halo catalogs.''"

text \<open>
  Modelled from the spec: \<open>populate_mock(simname = ...)\<close>, missing from the sources.
  The traceback shows the lines it goes through when the model already has a mock:
  \<^verbatim>\<open>
              simname = sim_defaults.default_simname
          if simname != self.mock.simname:
              raise HalotoolsError(inconsistent_simname_error_msg % (self.mock.simname, simname))
  \<close>
  and, in \<open>populate_mock\<close> itself, around the call of that check:
  \<^verbatim>\<open>
                  test_consistency_with_existing_mock(halocat=halocat)
              else:
                  test_consistency_with_existing_mock(**kwargs)
          else:
              if use_fake_sim is True:
  \<close>
  So a model that has a mock is checked first, and a catalog is loaded only in the other
  branch, for a model that has none. The notebook says the rest: the first call loads
  the halo catalog and binds it to the model, later calls populate the bound catalog
  again, and a switch of simulation is detected and refused. The call mutates the
  model and returns nothing; the model returns the outcome and the model as it is
  afterwards. The check raises before anything is loaded or generated, so that call
  leaves the model as it was; so does, here, any other call that raises.
\<close>

definition populate_mock ::
  "('a::zero) simulations \<Rightarrow> string option \<Rightarrow> 'a model \<Rightarrow> (error + unit) \<times> 'a model" where
  "populate_mock sims simname_kwarg self =
     (let s = (case simname_kwarg of None \<Rightarrow> default_simname sims | Some n \<Rightarrow> n);
          components = map snd (model_dictionary self)
      in case mock self of
           Some m \<Rightarrow>
             if s \<noteq> simname m
             then (Inl (HalotoolsError (inconsistent_simname_error_msg (simname m) s)), self)
             else (case populate components (halo_table m) of
                     Inl e \<Rightarrow> (Inl e, self)
                   | Inr g \<Rightarrow> (Inr (), self\<lparr>mock := Some (m\<lparr>galaxy_table := g\<rparr>)\<rparr>))
         | None \<Rightarrow>
             (case load_halo_table sims s of
                Inl e \<Rightarrow> (Inl e, self)
              | Inr t \<Rightarrow>
                  (case populate components t of
                     Inl e \<Rightarrow> (Inl e, self)
                   | Inr g \<Rightarrow>
                       (Inr (),
                        self\<lparr>mock := Some \<lparr>simname = s, halo_table = t, galaxy_table = g\<rparr>\<rparr>))))"

text \<open>
  Concrete simulations and a concrete model for the examples: a fake simulation of two
  halos, the Bolshoi catalog of three halos, a catalog that has no spins, and a model
  whose one component is an instance of the notebook's \<open>Size\<close>. The default catalog
  is downloaded, as the notebook asks; in \<open>catalogs_downloaded\<close> the catalog without
  spins is in the cache as well.
\<close>

definition fake_halos :: "real table" where
  "fake_halos = [(''halo_upid'', ''i8'', [-1, -1]), (''halo_spin'', ''f4'', [5, 10])]"

definition bolshoi_halos :: "real table" where
  "bolshoi_halos = [(''halo_upid'', ''i8'', [-1, -1, 7]), (''halo_spin'', ''f4'', [5, 15, 25])]"

definition spinless_halos :: "real table" where
  "spinless_halos = [(''halo_upid'', ''i8'', [-1, -1, 7])]"

definition bolshoi_downloaded :: "real simulations" where
  "bolshoi_downloaded =
     \<lparr> cache = [''bolshoi'' \<mapsto> bolshoi_halos], fake_sim = fake_halos,
       default_simname = ''bolshoi'' \<rparr>"

definition catalogs_downloaded :: "real simulations" where
  "catalogs_downloaded =
     \<lparr> cache = [''bolshoi'' \<mapsto> bolshoi_halos, ''spinless'' \<mapsto> spinless_halos],
       fake_sim = fake_halos, default_simname = ''bolshoi'' \<rparr>"

definition size_model :: "string \<Rightarrow> real model" where
  "size_model keyword =
     SubhaloModelFactory [(keyword, Size_component exact_numpy (Size_init ''centrals''))]"


section \<open>The notebooks as Python syntax\<close>

text \<open>
  The code of the repository is the code cells of three notebooks. Their statements are
  embedded as syntax trees, named after Python's \<open>ast\<close> module: what a cell defines,
  imports, reads and calls is then computed from the cell rather than listed by hand.
  A numeric literal keeps its source text; a keyword argument is the pair of its name
  and its value; a parameter keeps its stars (\<open>**kwargs\<close>).
\<close>

datatype expr =
    Name string
  | Num string
  | Str string
  | Attribute expr string
  | Subscript expr expr
  | Slice "expr option" "expr option"
  | Call expr "expr list" "(string \<times> expr) list"
  | BinOp expr string expr
  | UnaryOp string expr
  | Compare expr string expr
  | List "expr list"
  | Tuple "expr list"

datatype stmt =
    ImportFrom string "string list"
  | Import string string
  | Assign expr expr
  | Expr expr
  | Delete string
  | FunctionDef string "string list" "stmt list"
  | ClassDef string "expr list" "stmt list"
  | Return expr
  | Magic string "expr list"

subsection \<open>Names bound, read and called\<close>

text \<open>
  \<open>reads\<close> lists the names an expression looks up, in evaluation order; \<open>calls\<close> the
  names it calls directly (\<open>f(...)\<close>, not \<open>x.f(...)\<close>); \<open>operators\<close> the arithmetic and
  comparison operators it applies.
\<close>

fun reads :: "expr \<Rightarrow> string list" where
  "reads (Name n) = [n]"
| "reads (Num v) = []"
| "reads (Str v) = []"
| "reads (Attribute e a) = reads e"
| "reads (Subscript e i) = reads e @ reads i"
| "reads (Slice l u) =
     (case l of None \<Rightarrow> [] | Some e \<Rightarrow> reads e) @ (case u of None \<Rightarrow> [] | Some e \<Rightarrow> reads e)"
| "reads (Call f args keywords) =
     reads f @ concat (map reads args) @ concat (map (\<lambda>kw. reads (snd kw)) keywords)"
| "reads (BinOp l op r) = reads l @ reads r"
| "reads (UnaryOp op e) = reads e"
| "reads (Compare l op r) = reads l @ reads r"
| "reads (List es) = concat (map reads es)"
| "reads (Tuple es) = concat (map reads es)"

fun calls :: "expr \<Rightarrow> string list" where
  "calls (Name n) = []"
| "calls (Num v) = []"
| "calls (Str v) = []"
| "calls (Attribute e a) = calls e"
| "calls (Subscript e i) = calls e @ calls i"
| "calls (Slice l u) =
     (case l of None \<Rightarrow> [] | Some e \<Rightarrow> calls e) @ (case u of None \<Rightarrow> [] | Some e \<Rightarrow> calls e)"
| "calls (Call f args keywords) =
     calls f @ concat (map calls args) @ concat (map (\<lambda>kw. calls (snd kw)) keywords)
       @ (case f of Name n \<Rightarrow> [n] | _ \<Rightarrow> [])"
| "calls (BinOp l op r) = calls l @ calls r"
| "calls (UnaryOp op e) = calls e"
| "calls (Compare l op r) = calls l @ calls r"
| "calls (List es) = concat (map calls es)"
| "calls (Tuple es) = concat (map calls es)"

fun operators :: "expr \<Rightarrow> string list" where
  "operators (Name n) = []"
| "operators (Num v) = []"
| "operators (Str v) = []"
| "operators (Attribute e a) = operators e"
| "operators (Subscript e i) = operators e @ operators i"
| "operators (Slice l u) =
     (case l of None \<Rightarrow> [] | Some e \<Rightarrow> operators e)
       @ (case u of None \<Rightarrow> [] | Some e \<Rightarrow> operators e)"
| "operators (Call f args keywords) =
     operators f @ concat (map operators args)
       @ concat (map (\<lambda>kw. operators (snd kw)) keywords)"
| "operators (BinOp l op r) = operators l @ [op] @ operators r"
| "operators (UnaryOp op e) = op # operators e"
| "operators (Compare l op r) = operators l @ [op] @ operators r"
| "operators (List es) = concat (map operators es)"
| "operators (Tuple es) = concat (map operators es)"

text \<open>
  An assignment binds the names of its target; a subscript or attribute target binds
  nothing and reads its object.
\<close>

fun targets :: "expr \<Rightarrow> string list" where
  "targets (Name n) = [n]"
| "targets (Tuple es) = concat (map targets es)"
| "targets (List es) = concat (map targets es)"
| "targets e = []"

fun target_reads :: "expr \<Rightarrow> string list" where
  "target_reads (Name n) = []"
| "target_reads (Tuple es) = concat (map target_reads es)"
| "target_reads (List es) = concat (map target_reads es)"
| "target_reads e = reads e"

fun evaluated :: "stmt \<Rightarrow> expr list" where
  "evaluated (ImportFrom m ns) = []"
| "evaluated (Import m a) = []"
| "evaluated (Assign t v) = [v]"
| "evaluated (Expr e) = [e]"
| "evaluated (Delete n) = [Name n]"
| "evaluated (FunctionDef f ps body) = []"
| "evaluated (ClassDef c bases body) = bases"
| "evaluated (Return e) = [e]"
| "evaluated (Magic m es) = es"

fun stmt_reads :: "stmt \<Rightarrow> string list" where
  "stmt_reads (Assign t v) = reads v @ target_reads t"
| "stmt_reads s = concat (map reads (evaluated s))"

fun binds :: "stmt \<Rightarrow> string list" where
  "binds (ImportFrom m ns) = ns"
| "binds (Import m a) = [a]"
| "binds (Assign t v) = targets t"
| "binds (FunctionDef f ps body) = [f]"
| "binds (ClassDef c bases body) = [c]"
| "binds s = []"

text \<open>
  A function body runs when the function is called. The names it then looks up in the
  notebook's namespace are the ones it reads that are neither parameters nor assigned in
  the body. Calling a class runs its \<open>__init__\<close>.
\<close>

definition param_name :: "string \<Rightarrow> string" where
  "param_name p = dropWhile (\<lambda>c. c = CHR ''*'') p"

definition free_names :: "string list \<Rightarrow> stmt list \<Rightarrow> string list" where
  "free_names ps body =
     (let locals = map param_name ps @ concat (map binds body)
      in filter (\<lambda>n. n \<notin> set locals) (concat (map stmt_reads body)))"

fun init_of :: "stmt list \<Rightarrow> string list" where
  "init_of [] = []"
| "init_of (FunctionDef f ps body # ss) =
     (if f = ''__init__'' then free_names ps body else init_of ss)"
| "init_of (s # ss) = init_of ss"

fun deferred :: "stmt \<Rightarrow> (string \<times> string list) list" where
  "deferred (FunctionDef f ps body) = [(f, free_names ps body)]"
| "deferred (ClassDef c bases body) = [(c, init_of body)]"
| "deferred s = []"

text \<open>Names every Python session has without an import.\<close>

definition builtins :: "string list" where
  "builtins = [''len'', ''print'', ''object'', ''True'', ''False'', ''None'', ''range'',
     ''int'', ''float'', ''str'', ''list'', ''dict'', ''tuple'', ''set'', ''abs'', ''min'',
     ''max'', ''sum'', ''sorted'', ''zip'', ''map'', ''filter'', ''enumerate'',
     ''isinstance'', ''type'', ''repr'', ''open'', ''hasattr'', ''getattr'', ''setattr'']"

text \<open>
  The state of a notebook's session, as far as names go: the names bound in its
  namespace, and for each function or class defined in the notebook the names its body
  looks up there when it is called. A statement raises NameError at the first name it
  looks up that is neither bound nor built in; otherwise its bindings replace earlier
  ones, and \<open>del\<close> removes a name. Cells run in order in one session, and the run stops
  at the first NameError. (Calls that reach a notebook's function through another name
  or through the library are not followed.)
\<close>

record kernel =
  names :: "string list"
  callables :: "(string \<times> string list) list"

definition fresh_kernel :: kernel where
  "fresh_kernel = \<lparr> names = [], callables = [] \<rparr>"

definition lookups :: "kernel \<Rightarrow> stmt \<Rightarrow> string list" where
  "lookups k s =
     stmt_reads s
       @ concat (map (\<lambda>f. case map_of (callables k) f of None \<Rightarrow> [] | Some ns \<Rightarrow> ns)
                   (concat (map calls (evaluated s))))"

definition exec :: "stmt \<Rightarrow> kernel \<Rightarrow> error + kernel" where
  "exec s k =
     (case find (\<lambda>n. n \<notin> set (names k) \<and> n \<notin> set builtins) (lookups k s) of
        Some n \<Rightarrow> Inl (NameError n)
      | None \<Rightarrow>
          (let gone = (case s of Delete n \<Rightarrow> [n] | _ \<Rightarrow> binds s)
           in Inr \<lparr> names = binds s @ filter (\<lambda>n. n \<notin> set gone) (names k),
                    callables = deferred s @ filter (\<lambda>d. fst d \<notin> set gone) (callables k) \<rparr>))"

fun exec_all :: "stmt list \<Rightarrow> kernel \<Rightarrow> error + kernel" where
  "exec_all [] k = Inr k"
| "exec_all (s # ss) k = (case exec s k of Inl e \<Rightarrow> Inl e | Inr k' \<Rightarrow> exec_all ss k')"

definition run_notebook :: "stmt list list \<Rightarrow> error + kernel" where
  "run_notebook cells = exec_all (concat cells) fresh_kernel"

subsection \<open>The three notebooks\<close>

text \<open>
  Each notebook is the list of its code cells, each cell the list of its statements.
  The first source file holds \<open>halo_catalog_analysis_tutorial1\<close> followed by the
  notebook "Example 3: An HOD-style model with a feature of your own creation"; the
  second holds \<open>subhalo_modeling_tutorial1\<close> followed by a reStructuredText page.
  The backslash of the two raw LaTeX labels is written by its character code.
\<close>

definition backslash :: string where
  "backslash = [CHR 0x5C]"

definition halo_catalog_analysis_tutorial1 :: "stmt list list" where
  "halo_catalog_analysis_tutorial1 =
   [[ImportFrom ''halotools.sim_manager'' [''CachedHaloCatalog''],
     Assign (Name ''halocat'') (Call (Name ''CachedHaloCatalog'') [] []),
     Expr (Call (Name ''print'')
       [Subscript (Attribute (Name ''halocat'') ''halo_table'')
          (Slice (Some (Num ''0'')) (Some (Num ''9'')))] [])],
    [Assign (Name ''mask'')
       (Compare (Subscript (Attribute (Name ''halocat'') ''halo_table'') (Str ''halo_mpeak''))
          ''>'' (BinOp (Num ''1000'') ''*'' (Attribute (Name ''halocat'') ''particle_mass''))),
     Assign (Name ''halos'')
       (Subscript (Attribute (Name ''halocat'') ''halo_table'') (Name ''mask''))],
    [ImportFrom ''halotools.utils'' [''add_new_table_column''],
     Assign (Name ''grouping_key'') (Str ''halo_hostid''),
     Assign (Tuple [Name ''new_colname'', Name ''new_coltype''])
       (Tuple [Str ''num_subhalos'', Str ''i4'']),
     FunctionDef ''count_subhalos'' [''x'']
       [Return (BinOp (Call (Name ''len'') [Name ''x''] []) ''-'' (Num ''1''))],
     Assign (Name ''aggregation_function'') (Name ''count_subhalos''),
     Assign (Name ''colnames_needed_by_function'') (List [Str ''halo_hostid'']),
     Expr (Call (Name ''add_new_table_column'')
       [Name ''halos'', Name ''new_colname'', Name ''new_coltype'', Name ''grouping_key'',
        Name ''aggregation_function'', Name ''colnames_needed_by_function''] [])],
    [ImportFrom ''halotools.mock_observables'' [''mean_y_vs_x''],
     Import ''numpy'' ''np'',
     Assign (Name ''hostmask'')
       (Compare (Subscript (Name ''halos'') (Str ''halo_upid'')) ''=='' (UnaryOp ''-'' (Num ''1''))),
     Assign (Name ''hosts'') (Subscript (Name ''halos'') (Name ''hostmask'')),
     Assign (Name ''bins'')
       (Call (Attribute (Name ''np'') ''logspace'') [Num ''12.5'', Num ''14.5'', Num ''25''] []),
     Assign (Name ''result'')
       (Call (Name ''mean_y_vs_x'')
          [Attribute (Subscript (Name ''hosts'') (Str ''halo_mvir_host_halo'')) ''data'',
           Attribute (Subscript (Name ''hosts'') (Str ''num_subhalos'')) ''data'']
          [(''bins'', Name ''bins''), (''error_estimator'', Str ''variance'')]),
     Assign (Tuple [Name ''host_mass'', Name ''mean_richness'', Name ''richness_variance''])
       (Name ''result'')],
    [Magic ''matplotlib inline'' [],
     ImportFrom ''seaborn'' [''plt'']],
    [Expr (Call (Attribute (Name ''plt'') ''errorbar'')
       [Name ''host_mass'', Name ''mean_richness'']
       [(''yerr'', Name ''richness_variance''), (''fmt'', Str ''none''),
        (''ecolor'', Str ''gray'')]),
     Expr (Call (Attribute (Name ''plt'') ''plot'')
       [Name ''host_mass'', Name ''mean_richness'', Str ''D''] [(''color'', Str ''k'')]),
     Expr (Call (Attribute (Name ''plt'') ''loglog'') [] []),
     Expr (Call (Attribute (Name ''plt'') ''xticks'') [] [(''size'', Num ''18'')]),
     Expr (Call (Attribute (Name ''plt'') ''yticks'') [] [(''size'', Num ''18'')]),
     Expr (Call (Attribute (Name ''plt'') ''xlabel'')
       [Str (''$M_{'' @ backslash @ ''rm halo}/M_{'' @ backslash @ ''odot}$'')]
       [(''fontsize'', Num ''25'')]),
     Expr (Call (Attribute (Name ''plt'') ''ylabel'')
       [Str (''$'' @ backslash @ ''langle N_{'' @ backslash @ ''rm sub}'' @ backslash
             @ ''rangle$'')]
       [(''fontsize'', Num ''25'')]),
     Expr (Call (Attribute (Name ''plt'') ''ylim'') []
       [(''ymin'', Num ''1''), (''ymax'', Num ''100'')]),
     Expr (Call (Attribute (Name ''plt'') ''xlim'') []
       [(''xmin'', Num ''1e12''), (''xmax'', Num ''5e14'')])],
    []]"

definition hod_modeling_tutorial3 :: "stmt list list" where
  "hod_modeling_tutorial3 =
   [[ClassDef ''Size'' [Name ''object'']
       [FunctionDef ''__init__'' [''self'', ''gal_type'']
          [Assign (Attribute (Name ''self'') ''gal_type'') (Name ''gal_type''),
           Assign (Attribute (Name ''self'') ''_mock_generation_calling_sequence'')
             (List [Str ''assign_size'']),
           Assign (Attribute (Name ''self'') ''_galprop_dtypes_to_allocate'')
             (Call (Attribute (Name ''np'') ''dtype'')
                [List [Tuple [Str ''galsize'', Str ''f4'']]] []),
           Assign (Attribute (Name ''self'') ''list_of_haloprops_needed'')
             (List [Str ''halo_spin''])],
        FunctionDef ''assign_size'' [''self'', ''**kwargs'']
          [Assign (Name ''table'') (Subscript (Name ''kwargs'') (Str ''table'')),
           Assign (Subscript (Subscript (Name ''table'') (Str ''galsize'')) (Slice None None))
             (BinOp (Subscript (Name ''table'') (Str ''halo_spin'')) ''/'' (Num ''5.''))]]],
    [Assign (Name ''cen_size'') (Call (Name ''Size'') [Str ''centrals''] []),
     Assign (Name ''sat_size'') (Call (Name ''Size'') [Str ''satellites''] []),
     ImportFrom ''halotools.empirical_models'' [''PrebuiltHodModelFactory'', ''HodModelFactory''],
     Assign (Name ''zheng_model'') (Call (Name ''PrebuiltHodModelFactory'') [Str ''zheng07''] []),
     Assign (Name ''new_model'')
       (Call (Name ''HodModelFactory'') []
          [(''baseline_model_instance'', Name ''zheng_model''),
           (''centrals_size'', Name ''cen_size''), (''satellites_size'', Name ''sat_size'')])],
    [ImportFrom ''halotools.sim_manager'' [''CachedHaloCatalog''],
     Assign (Name ''halocat'')
       (Call (Name ''CachedHaloCatalog'') []
          [(''simname'', Str ''bolshoi''), (''redshift'', Num ''0'')]),
     Expr (Call (Attribute (Name ''new_model'') ''populate_mock'') [Name ''halocat''] [])],
    [Expr (Call (Attribute (Attribute (Name ''new_model'') ''mock'') ''populate'') [] [])],
    [Magic ''timeit''
       [Call (Attribute (Attribute (Name ''new_model'') ''mock'') ''populate'') [] []]],
    [Expr (Call (Name ''print'')
       [Call (Attribute
                (Attribute (Attribute (Name ''new_model'') ''mock'') ''galaxy_table'') ''keys'')
          [] []] [])],
    [Expr (Call (Name ''print'')
       [Subscript
          (Subscript (Attribute (Attribute (Name ''new_model'') ''mock'') ''galaxy_table'')
             (Str ''galsize''))
          (Slice (Some (UnaryOp ''-'' (Num ''5''))) None)] [])],
    []]"

definition populate_mock_call :: "string \<Rightarrow> expr" where
  "populate_mock_call sim =
     Call (Attribute (Name ''model_instance'') ''populate_mock'') [] [(''simname'', Str sim)]"

definition print_galaxy_table :: stmt where
  "print_galaxy_table =
     Expr (Call (Name ''print'')
       [Subscript (Attribute (Attribute (Name ''model_instance'') ''mock'') ''galaxy_table'')
          (Slice (Some (Num ''0'')) (Some (Num ''5'')))] [])"

definition subhalo_modeling_tutorial1 :: "stmt list list" where
  "subhalo_modeling_tutorial1 =
   [[ImportFrom ''halotools.empirical_models'' [''SubhaloModelFactory''],
     ImportFrom ''halotools.empirical_models'' [''Behroozi10SmHm''],
     Assign (Name ''sm_model'') (Call (Name ''Behroozi10SmHm'') [] [(''redshift'', Num ''0'')]),
     Assign (Name ''model_instance'')
       (Call (Name ''SubhaloModelFactory'') [] [(''stellar_mass'', Name ''sm_model'')])],
    [Expr (populate_mock_call ''fake'')],
    [Expr (populate_mock_call ''bolshoi'')],
    [Delete ''model_instance'',
     Assign (Name ''model_instance'')
       (Call (Name ''SubhaloModelFactory'') [] [(''stellar_mass'', Name ''sm_model'')])],
    [Expr (populate_mock_call ''bolshoi'')],
    [Expr (populate_mock_call ''bolshoi'')],
    [Magic ''timeit'' [populate_mock_call ''bolshoi'']],
    [print_galaxy_table],
    [Assign (Name ''sm_model'') (Call (Name ''Behroozi10SmHm'') [] [(''redshift'', Num ''0'')]),
     Assign (Name ''model_instance'')
       (Call (Name ''SubhaloModelFactory'') [] [(''mstar'', Name ''sm_model'')])],
    [Expr (populate_mock_call ''fake'')],
    [print_galaxy_table],
    []]"

subsection \<open>What the notebooks define\<close>

text \<open>
  \<open>call_roots\<close> lists, for every call in an expression, the name the called object is
  reached from (\<open>np\<close> for \<open>np.dtype(...)\<close>). \<open>function_defs\<close> lists the functions and
  methods a statement defines, a method under the name \<open>Class.method\<close>.
\<close>

fun call_roots :: "expr \<Rightarrow> string list" where
  "call_roots (Name n) = []"
| "call_roots (Num v) = []"
| "call_roots (Str v) = []"
| "call_roots (Attribute e a) = call_roots e"
| "call_roots (Subscript e i) = call_roots e @ call_roots i"
| "call_roots (Slice l u) =
     (case l of None \<Rightarrow> [] | Some e \<Rightarrow> call_roots e)
       @ (case u of None \<Rightarrow> [] | Some e \<Rightarrow> call_roots e)"
| "call_roots (Call f args keywords) =
     take 1 (reads f) @ call_roots f @ concat (map call_roots args)
       @ concat (map (\<lambda>kw. call_roots (snd kw)) keywords)"
| "call_roots (BinOp l op r) = call_roots l @ call_roots r"
| "call_roots (UnaryOp op e) = call_roots e"
| "call_roots (Compare l op r) = call_roots l @ call_roots r"
| "call_roots (List es) = concat (map call_roots es)"
| "call_roots (Tuple es) = concat (map call_roots es)"

fun expressions :: "stmt \<Rightarrow> expr list" where
  "expressions (Assign t v) = [t, v]"
| "expressions (FunctionDef f ps body) = concat (map expressions body)"
| "expressions (ClassDef c bases body) = bases @ concat (map expressions body)"
| "expressions s = evaluated s"

fun function_defs :: "stmt \<Rightarrow> (string \<times> stmt list) list" where
  "function_defs (FunctionDef f ps body) = (f, body) # concat (map function_defs body)"
| "function_defs (ClassDef c bases body) =
     map (\<lambda>d. (c @ ''.'' @ fst d, snd d)) (concat (map function_defs body))"
| "function_defs s = []"

fun class_defs :: "stmt \<Rightarrow> string list" where
  "class_defs (ClassDef c bases body) = c # concat (map class_defs body)"
| "class_defs (FunctionDef f ps body) = concat (map class_defs body)"
| "class_defs s = []"

fun imported :: "stmt \<Rightarrow> string list" where
  "imported (ImportFrom m ns) = ns"
| "imported (Import m a) = [a]"
| "imported s = []"

definition body_operators :: "stmt list \<Rightarrow> string list" where
  "body_operators body = concat (map operators (concat (map expressions body)))"

definition body_call_roots :: "stmt list \<Rightarrow> string list" where
  "body_call_roots body = concat (map call_roots (concat (map expressions body)))"

text \<open>
  A function delegates to the library when its body applies no operator of its own and
  calls something, and everything it calls is reached from a name the notebook imports.
\<close>

definition delegates :: "string list \<Rightarrow> string \<times> stmt list \<Rightarrow> bool" where
  "delegates library d =
     (body_operators (snd d) = [] \<and> body_call_roots (snd d) \<noteq> []
        \<and> list_all (\<lambda>n. n \<in> set library) (body_call_roots (snd d)))"

definition notebook_delegates :: "stmt list list \<Rightarrow> bool" where
  "notebook_delegates cells =
     list_all (delegates (concat (map imported (concat cells))))
       (concat (map function_defs (concat cells)))"

definition called_by_name :: "stmt list list \<Rightarrow> string list" where
  "called_by_name cells = concat (map calls (concat (map evaluated (concat cells))))"

definition defined_functions :: "stmt list list \<Rightarrow> (string \<times> string list \<times> string list) list" where
  "defined_functions cells =
     map (\<lambda>d. (fst d, body_operators (snd d), body_call_roots (snd d)))
       (concat (map function_defs (concat cells)))"

definition defined_classes :: "stmt list list \<Rightarrow> string list" where
  "defined_classes cells = concat (map class_defs (concat cells))"

definition calls_imported :: "stmt list list \<Rightarrow> bool" where
  "calls_imported cells =
     list_all
       (\<lambda>f. f \<in> set (concat (map imported (concat cells)) @ defined_classes cells @ [''print'']))
       (called_by_name cells)"

section \<open>The documentation page\<close>

text \<open>
  The reStructuredText page that follows the second notebook in the sources, line by
  line. The entries of a \<open>toctree\<close> directive are the lines of its indented block that
  are neither blank nor options (\<open>:maxdepth: 1\<close>).
\<close>

definition halo_catalog_analysis_tutorial :: "string list" where
  "halo_catalog_analysis_tutorial =
    [''.. _halo_catalog_analysis_tutorial:'',
     '''',
     ''**********************************************************************'',
     ''Tutorials on analyzing halo catalogs '',
     ''**********************************************************************'',
     '''',
     ''By following this tutorial, you will learn how to use Halotools to '',
     ''analyze a halo catalog. We will proceed by giving a series of '',
     ''increasingly complex examples. Each example is in principle stand-alone, '',
     ''so that you can pick and choose from any of the pages below according to '',
     ''the kind of analysis you are most interested in. '',
     ''In cases where material covered in a previous example is necessary '',
     ''to understand some aspect of one of the more complicated later calculations, '',
     ''a link to the previous example will always be provided. '',
     '''',
     ''Basic examples'',
     ''==================='',
     ''Each of the examples in this section gives a specific demonstration of how to perform a '',
     ''straightforward calculation on a halo catalog. By reading through '',
     ''these examples, you will gain a working knowledge of all the major functions '',
     ''in the `~halotools.mock_observables` package. '',
     '''',
     ''halo properties as a function of halo mass'',
     ''-------------------------------------------------'',
     '''',
     ''.. toctree::'',
     ''   :maxdepth: 1'',
     '''',
     ''   basic_examples/halo_catalog_analysis_tutorial1'']"

definition strip :: "string \<Rightarrow> string" where
  "strip l = rev (dropWhile (\<lambda>c. c = CHR '' '') (rev (dropWhile (\<lambda>c. c = CHR '' '') l)))"

definition in_block :: "string \<Rightarrow> bool" where
  "in_block l = (strip l = [] \<or> take 1 l = '' '')"

definition entries :: "string list \<Rightarrow> string list" where
  "entries block = filter (\<lambda>l. l \<noteq> [] \<and> take 1 l \<noteq> '':'') (map strip block)"

fun toctree_entries :: "string list \<Rightarrow> string list" where
  "toctree_entries [] = []"
| "toctree_entries (l # ls) =
     (if strip l = ''.. toctree::'' then entries (takeWhile in_block ls) else [])
       @ toctree_entries ls"

text \<open>The documents of the repository, in the order of the sources.\<close>

datatype document = Notebook "stmt list list" | Page "string list"

definition documents :: "document list" where
  "documents =
     [Notebook halo_catalog_analysis_tutorial1, Notebook hod_modeling_tutorial3,
      Notebook subhalo_modeling_tutorial1, Page halo_catalog_analysis_tutorial]"

fun pages :: "document list \<Rightarrow> string list list" where
  "pages [] = []"
| "pages (Page p # ds) = p # pages ds"
| "pages (Notebook n # ds) = pages ds"

fun notebooks :: "document list \<Rightarrow> stmt list list list" where
  "notebooks [] = []"
| "notebooks (Notebook n # ds) = n # notebooks ds"
| "notebooks (Page p # ds) = notebooks ds"

definition repository :: "stmt list list list" where
  "repository = notebooks documents"

section \<open>Facts about tables\<close>

lemma wf_table_lengths:
  "wf_table t \<Longrightarrow> map_of t a = Some (da, xs) \<Longrightarrow> map_of t b = Some (db, ys)
     \<Longrightarrow> length xs = length ys"
proof (cases t)
  case Nil
  assume "map_of t a = Some (da, xs)"
  with Nil show ?thesis by simp
next
  case (Cons c cs)
  obtain n d col where c: "c = (n, d, col)" by (cases c) auto
  assume wf: "wf_table t" and a: "map_of t a = Some (da, xs)" and b: "map_of t b = Some (db, ys)"
  from wf Cons c have all: "\<forall>e \<in> set cs. length (snd (snd e)) = length col"
    by (simp add: list_all_iff)
  have len: "length zs = length col" if "map_of t k = Some (dz, zs)" for k dz zs
  proof (cases "k = n")
    case True
    with that Cons c show ?thesis by simp
  next
    case False
    with that Cons c have "map_of cs k = Some (dz, zs)" by simp
    then have "(k, dz, zs) \<in> set cs" by (rule map_of_SomeD)
    with all show ?thesis by fastforce
  qed
  from len [OF a] len [OF b] show ?thesis by simp
qed

lemma keys_update_present:
  "map_of t k = Some v \<Longrightarrow> map fst (AList.update k w t) = map fst t"
  by (induction t) (auto split: if_splits)

section \<open>Size.assign_size writes the galsize column only\<close>

lemmas assign_size_defs =
  assign_size_def truediv_def getitem_def setslice_def exact_numpy_def Size_init_def

text \<open>
  Claim C9, as stated, for every table with a \<open>halo_spin\<close> column, \<open>galsize\<close> becomes
  \<open>halo_spin\<close> divided by 5. It fails on a table that has no \<open>galsize\<close> column, where
  \<open>table['galsize']\<close> raises KeyError; it fails on a table whose \<open>galsize\<close> column is
  an integer column, where the assignment stores the quotient \<open>1.5\<close> of \<open>7.5\<close> as \<open>1\<close>;
  and it fails on a table (here with no rows) whose \<open>halo_spin\<close> column holds strings,
  where the division raises TypeError.
\<close>

theorem assign_size_not_the_quotient_counterexample:
  "assign_size exact_numpy (Size_init ''centrals'')
     [''table'' \<mapsto> [(''halo_spin'', ''f4'', [15 / 2, 10])]] = Inl (KeyError ''galsize'')
   \<and> assign_size exact_numpy (Size_init ''centrals'')
       [''table'' \<mapsto> [(''halo_spin'', ''f4'', [15 / 2, 10]), (''galsize'', ''i4'', [0, 0])]]
       = Inr [(''halo_spin'', ''f4'', [15 / 2, 10]), (''galsize'', ''i4'', [1, 2])]
   \<and> [15 / 2 / 5, 10 / 5] \<noteq> [1, 2 :: real]
   \<and> assign_size exact_numpy (Size_init ''centrals'')
       [''table'' \<mapsto> [(''halo_spin'', ''S8'', []), (''galsize'', ''f4'', [])]] = Inl TypeError"
  by (simp add: assign_size_defs)

text \<open>
  Claim C9, amended: for every table that has a \<open>halo_spin\<close> column and a \<open>galsize\<close>
  column, of dtypes for which NumPy can divide by a float and store the quotient,
  \<open>Size.assign_size\<close> returns normally and sets, for every row, \<open>galsize\<close> to NumPy's
  quotient of \<open>halo_spin\<close> by \<open>5.\<close>, converted to the dtype of the \<open>galsize\<close> column;
  the \<open>galsize\<close> column keeps its dtype, every other column is unchanged, and so are the
  column names and their order.
\<close>

theorem assign_size_sets_galsize_only:
  assumes "kwargs ''table'' = Some table"
    and "wf_table table"
    and "map_of table ''halo_spin'' = Some (ds, halo_spin)"
    and "map_of table ''galsize'' = Some (dg, galsize)"
    and "true_divide np ds = Some (dq, entry_quotient)"
    and "astype np dq dg = Some convert"
  shows "\<exists>table'. assign_size np self kwargs = Inr table'
           \<and> map_of table' ''galsize'' = Some (dg, map (\<lambda>x. convert (entry_quotient x 5)) halo_spin)
           \<and> (\<forall>c. c \<noteq> ''galsize'' \<longrightarrow> map_of table' c = map_of table c)
           \<and> keys table' = keys table"
proof -
  let ?new = "map (\<lambda>x. convert (entry_quotient x 5)) halo_spin"
  let ?t = "AList.update ''galsize'' (dg, ?new) table"
  have len: "length halo_spin = length galsize"
    using assms(2,3,4) by (rule wf_table_lengths)
  have run: "assign_size np self kwargs = Inr ?t"
    using assms(1,3,4,5,6) len
    by (simp add: assign_size_def truediv_def getitem_def setslice_def comp_def)
  have new: "map_of ?t ''galsize'' = Some (dg, ?new)"
    by (simp add: update_conv')
  have frame: "\<forall>c. c \<noteq> ''galsize'' \<longrightarrow> map_of ?t c = map_of table c"
    by (simp add: update_conv')
  have names: "keys ?t = keys table"
    using assms(4) by (simp add: keys_def keys_update_present)
  from run new frame names show ?thesis by blast
qed

theorem assign_size_sets_galsize_only_witness:
  "wf_table [(''halo_spin'', ''f4'', [5 :: real, 10]), (''galsize'', ''f4'', [0, 0]),
             (''halo_mvir'', ''f4'', [3, 4])]
   \<and> (\<exists>table'.
        assign_size exact_numpy (Size_init ''centrals'')
          [''table'' \<mapsto> [(''halo_spin'', ''f4'', [5 :: real, 10]), (''galsize'', ''f4'', [0, 0]),
                         (''halo_mvir'', ''f4'', [3, 4])]] = Inr table'
        \<and> map_of table' ''galsize'' = Some (''f4'', [1, 2])
        \<and> map_of table' ''halo_mvir'' = Some (''f4'', [3, 4])
        \<and> keys table' = [''halo_spin'', ''galsize'', ''halo_mvir''])"
proof -
  let ?T = "[(''halo_spin'', ''f4'', [5 :: real, 10]), (''galsize'', ''f4'', [0, 0]),
             (''halo_mvir'', ''f4'', [3, 4])]"
  let ?K = "[''table'' \<mapsto> ?T]"
  have k: "?K ''table'' = Some ?T" by simp
  have wf: "wf_table ?T" by simp
  have spin: "map_of ?T ''halo_spin'' = Some (''f4'', [5, 10])" by simp
  have gal: "map_of ?T ''galsize'' = Some (''f4'', [0, 0])" by simp
  have quot: "true_divide exact_numpy ''f4'' = Some (''f4'', \<lambda>x d. x / d)"
    by (simp add: exact_numpy_def)
  have conv: "astype exact_numpy ''f4'' ''f4'' = Some (\<lambda>x. x)"
    by (simp add: exact_numpy_def)
  have "\<exists>table'. assign_size exact_numpy (Size_init ''centrals'') ?K = Inr table'
           \<and> map_of table' ''galsize'' = Some (''f4'', map (\<lambda>x. x / 5) [5 :: real, 10])
           \<and> (\<forall>c. c \<noteq> ''galsize'' \<longrightarrow> map_of table' c = map_of ?T c)
           \<and> keys table' = keys ?T"
    using k wf spin gal quot conv by (rule assign_size_sets_galsize_only)
  then obtain table' where run: "assign_size exact_numpy (Size_init ''centrals'') ?K = Inr table'"
    and new: "map_of table' ''galsize'' = Some (''f4'', map (\<lambda>x. x / 5) [5 :: real, 10])"
    and frame: "\<forall>c. c \<noteq> ''galsize'' \<longrightarrow> map_of table' c = map_of ?T c"
    and names: "keys table' = keys ?T"
    by (elim exE conjE)
  from frame have "map_of table' ''halo_mvir'' = map_of ?T ''halo_mvir''" by simp
  then have mvir: "map_of table' ''halo_mvir'' = Some (''f4'', [3, 4])" by simp
  from new have new': "map_of table' ''galsize'' = Some (''f4'', [1, 2])" by simp
  from names have names': "keys table' = [''halo_spin'', ''galsize'', ''halo_mvir'']"
    by (simp add: keys_def)
  from wf run new' mvir names' show ?thesis by blast
qed

section \<open>The num_subhalos column\<close>

lemma collect_Inr: "collect (map (\<lambda>k. Inr (f k)) ks) = Inr (map f ks)"
  by (induction ks) auto

lemma length_group_members:
  "length xs = length ys \<Longrightarrow>
     length (group_members xs k ys) = length (filter (\<lambda>k'. k' = k) xs)"
  unfolding group_members_def
  by (induction xs ys rule: list_induct2) auto

lemma add_num_subhalos_result:
  assumes "map_of halos ''halo_hostid'' = Some (dt, halo_hostid)"
  shows "add_num_subhalos halos =
           Inr (AList.update ''num_subhalos''
                  (''i4'', map (\<lambda>k. of_int (int (length (filter (\<lambda>k'. k' = k) halo_hostid)) - 1))
                             halo_hostid) halos)"
proof -
  have agg: "map_sum id of_int (call1 count_subhalos [group_members halo_hostid k halo_hostid])
               = Inr (of_int (int (length (filter (\<lambda>k'. k' = k) halo_hostid)) - 1))" for k
    by (simp add: call1_def count_subhalos_def length_group_members)
  show ?thesis
    using assms
    by (simp add: add_num_subhalos_def add_new_table_column_def getitem_def agg collect_Inr)
qed

text \<open>
  Claim C8: for every halo table (one that has the grouping column \<open>halo_hostid\<close>), the
  call adds the column \<open>num_subhalos\<close>, and in every row its value is the number of rows
  that share the row's \<open>halo_hostid\<close>, minus 1; a halo that is alone in its group gets 0.
\<close>

theorem num_subhalos_is_group_size_minus_one:
  fixes halos :: "('a::ring_1) table"
  assumes "map_of halos ''halo_hostid'' = Some (dt, halo_hostid)"
  shows "\<exists>halos' num_subhalos.
           add_num_subhalos halos = Inr halos'
           \<and> map_of halos' ''num_subhalos'' = Some (''i4'', num_subhalos)
           \<and> length num_subhalos = length halo_hostid
           \<and> (\<forall>i < length halo_hostid.
                 num_subhalos ! i =
                   of_int (int (length (filter (\<lambda>k. k = halo_hostid ! i) halo_hostid)) - 1))
           \<and> (\<forall>i < length halo_hostid.
                 length (filter (\<lambda>k. k = halo_hostid ! i) halo_hostid) = 1
                   \<longrightarrow> num_subhalos ! i = 0)"
proof -
  let ?col = "map (\<lambda>k. of_int (int (length (filter (\<lambda>k'. k' = k) halo_hostid)) - 1) :: 'a)
                halo_hostid"
  let ?t = "AList.update ''num_subhalos'' (''i4'', ?col) halos"
  have run: "add_num_subhalos halos = Inr ?t"
    using assms by (rule add_num_subhalos_result)
  have col: "map_of ?t ''num_subhalos'' = Some (''i4'', ?col)"
    by (simp add: update_conv')
  have len: "length ?col = length halo_hostid" by simp
  have val: "\<forall>i < length halo_hostid.
               ?col ! i = of_int (int (length (filter (\<lambda>k. k = halo_hostid ! i) halo_hostid)) - 1)"
    by simp
  have alone: "\<forall>i < length halo_hostid.
                 length (filter (\<lambda>k. k = halo_hostid ! i) halo_hostid) = 1 \<longrightarrow> ?col ! i = 0"
    by simp
  from run col len val alone show ?thesis by blast
qed

theorem num_subhalos_is_group_size_minus_one_witness:
  "\<exists>halos'.
     add_num_subhalos
       [(''halo_hostid'', ''i8'', [7 :: int, 7, 9, 7]), (''halo_upid'', ''i8'', [-1, 7, -1, 7])]
       = Inr halos'
     \<and> map_of halos' ''num_subhalos'' = Some (''i4'', [2, 2, 0, 2])"
proof -
  let ?T = "[(''halo_hostid'', ''i8'', [7 :: int, 7, 9, 7]), (''halo_upid'', ''i8'', [-1, 7, -1, 7])]"
  have h: "map_of ?T ''halo_hostid'' = Some (''i8'', [7, 7, 9, 7])" by simp
  have "\<exists>halos' num_subhalos.
           add_num_subhalos ?T = Inr halos'
           \<and> map_of halos' ''num_subhalos'' = Some (''i4'', num_subhalos)
           \<and> length num_subhalos = length [7 :: int, 7, 9, 7]
           \<and> (\<forall>i < length [7 :: int, 7, 9, 7].
                 num_subhalos ! i =
                   of_int (int (length (filter (\<lambda>k. k = [7 :: int, 7, 9, 7] ! i) [7, 7, 9, 7])) - 1))
           \<and> (\<forall>i < length [7 :: int, 7, 9, 7].
                 length (filter (\<lambda>k. k = [7 :: int, 7, 9, 7] ! i) [7, 7, 9, 7]) = 1
                   \<longrightarrow> num_subhalos ! i = 0)"
    using h by (rule num_subhalos_is_group_size_minus_one)
  then obtain halos' col where run: "add_num_subhalos ?T = Inr halos'"
    and col: "map_of halos' ''num_subhalos'' = Some (''i4'', col)"
    and len: "length col = length [7 :: int, 7, 9, 7]"
    and val: "\<forall>i < length [7 :: int, 7, 9, 7].
                 col ! i =
                   of_int (int (length (filter (\<lambda>k. k = [7 :: int, 7, 9, 7] ! i) [7, 7, 9, 7])) - 1)"
    by (elim exE conjE)
  from val have "col ! 0 = 2" "col ! 1 = 2" "col ! 2 = 0" "col ! 3 = 2"
    by simp_all
  with len have "col = [2, 2, 0, 2]"
    by (simp add: list_eq_iff_nth_eq less_Suc_eq numeral_eq_Suc)
  with run col show ?thesis by blast
qed

section \<open>Running the notebooks\<close>

lemma halo_catalog_analysis_tutorial1_names_bound:
  "\<not> isl (run_notebook halo_catalog_analysis_tutorial1)"
  by code_simp

lemma subhalo_modeling_tutorial1_names_bound:
  "\<not> isl (run_notebook subhalo_modeling_tutorial1)"
  by code_simp

text \<open>
  Claim C4 says that every name a notebook's cell uses is defined or imported earlier in
  that notebook. The HOD notebook breaks it: \<open>Size.__init__\<close> calls \<open>np.dtype\<close>, the
  notebook never imports \<open>np\<close>, and its second cell calls \<open>Size('centrals')\<close>. The run
  stops there with NameError, whereas the halo catalog notebook imports \<open>numpy as np\<close>
  before it uses it.
\<close>

theorem hod_modeling_tutorial3_np_undefined:
  "run_notebook hod_modeling_tutorial3 = Inl (NameError ''np'')"
  by code_simp

section \<open>What the repository defines itself\<close>

text \<open>
  Claim C2, as stated, no function or method defined in the repository does more than
  delegate to the library: it fails, since \<open>count_subhalos\<close> subtracts and calls only the
  builtin \<open>len\<close>, and \<open>Size.assign_size\<close> divides and calls nothing.
\<close>

theorem repository_delegates_counterexample:
  "\<not> list_all notebook_delegates repository"
  by code_simp

text \<open>
  Claim C2, amended: the repository defines three functions of its own, which compute
  rather than delegate: \<open>count_subhalos\<close> (a subtraction on the result of the builtin
  \<open>len\<close>), \<open>Size.__init__\<close> (which calls \<open>np.dtype\<close>) and \<open>Size.assign_size\<close> (a
  division). Apart from them, every function that a cell calls by name is imported from
  an external library in that notebook, or is the notebook's own class \<open>Size\<close>, or is
  \<open>print\<close>.
\<close>

theorem repository_defines_three_functions:
  "map defined_functions repository =
     [[(''count_subhalos'', [''-''], [''len''])],
      [(''Size.__init__'', [], [''np'']), (''Size.assign_size'', [''/''], [])],
      []]
   \<and> list_all calls_imported repository"
  by code_simp

text \<open>
  Claim C3, as stated, no type, column or dtype originates in the repository: it fails,
  since the HOD notebook defines the class \<open>Size\<close>, whose instances declare a column
  with a dtype.
\<close>

theorem repository_defines_no_type_counterexample:
  "concat (map defined_classes repository) \<noteq> []
   \<and> galprop_dtypes_to_allocate (Size_init ''centrals'') \<noteq> []"
  by code_simp

text \<open>
  Claim C3, amended: the repository defines exactly one type, the class \<open>Size\<close> of the
  HOD notebook. Every instance of it declares one galaxy property of its own, the column
  \<open>galsize\<close> of dtype \<open>f4\<close>, names \<open>halo_spin\<close> as the halo property it needs and
  \<open>assign_size\<close> as the method that fills the column, and keeps the galaxy type it was
  given. The other two notebooks define no type.
\<close>

theorem repository_defines_one_type:
  "map defined_classes repository = [[], [''Size''], []]
   \<and> galprop_dtypes_to_allocate (Size_init g) = [(''galsize'', ''f4'')]
   \<and> list_of_haloprops_needed (Size_init g) = [''halo_spin'']
   \<and> mock_generation_calling_sequence (Size_init g) = [''assign_size'']
   \<and> gal_type (Size_init g) = g"
proof -
  have "map defined_classes repository = [[], [''Size''], []]"
    by code_simp
  then show ?thesis
    by (simp add: Size_init_def)
qed

section \<open>The index page\<close>

text \<open>
  Claim C5: the repository has exactly one documentation page, and the page links to
  exactly one tutorial, the single entry of its toctree.
\<close>

theorem one_index_page_one_toctree_entry:
  "length (pages documents) = 1
   \<and> map toctree_entries (pages documents) = [[''basic_examples/halo_catalog_analysis_tutorial1'']]"
  by code_simp

section \<open>Switching the simulation of a populated model\<close>

lemmas population_defs =
  populate_mock_def populate_def load_halo_table_def allocate_def nrows_def
  SubhaloModelFactory_def Size_component_def size_model_def fake_halos_def
  bolshoi_halos_def spinless_halos_def bolshoi_downloaded_def catalogs_downloaded_def
  assign_size_defs





section \<open>The keyword of a component is a nickname\<close>

text \<open>
  The columns of an allocated table are the columns it had and the declared ones.
\<close>

lemma allocate_keys:
  "set (keys (allocate dtypes n t)) = set (keys t) \<union> set (map fst dtypes)"
  unfolding allocate_def keys_def
  by (induction dtypes arbitrary: t) (auto simp: dom_update)

text \<open>
  Claim C10: two builds of \<open>SubhaloModelFactory\<close> that pass the same component under
  different keywords behave alike under \<open>populate_mock\<close>, their mocks are equal, and so
  the galaxy tables have the same column names: the names come from the component,
  which allocates what its \<open>_galprop_dtypes_to_allocate\<close> declares, and the keyword is
  never read.
\<close>

theorem galaxy_table_columns_independent_of_keyword:
  "fst (populate_mock sims s (SubhaloModelFactory [(k1, c)]))
     = fst (populate_mock sims s (SubhaloModelFactory [(k2, c)]))
   \<and> mock (snd (populate_mock sims s (SubhaloModelFactory [(k1, c)])))
     = mock (snd (populate_mock sims s (SubhaloModelFactory [(k2, c)])))
   \<and> map_option (\<lambda>m. keys (galaxy_table m))
       (mock (snd (populate_mock sims s (SubhaloModelFactory [(k1, c)]))))
     = map_option (\<lambda>m. keys (galaxy_table m))
         (mock (snd (populate_mock sims s (SubhaloModelFactory [(k2, c)]))))"
  by (auto simp: populate_mock_def SubhaloModelFactory_def Let_def
           split: sum.splits option.splits)

theorem galaxy_table_columns_independent_of_keyword_witness:
  "map_option (\<lambda>m. keys (galaxy_table m))
     (mock (snd (populate_mock bolshoi_downloaded (Some ''bolshoi'') (size_model ''galsize''))))
     = Some [''halo_upid'', ''halo_spin'', ''galsize'']
   \<and> map_option (\<lambda>m. keys (galaxy_table m))
       (mock (snd (populate_mock bolshoi_downloaded (Some ''bolshoi'') (size_model ''sz''))))
     = Some [''halo_upid'', ''halo_spin'', ''galsize'']"
proof -
  have one: "map_option (\<lambda>m. keys (galaxy_table m))
     (mock (snd (populate_mock bolshoi_downloaded (Some ''bolshoi'') (size_model ''galsize''))))
     = Some [''halo_upid'', ''halo_spin'', ''galsize'']"
    by (simp add: population_defs keys_def)
  from galaxy_table_columns_independent_of_keyword
    [of bolshoi_downloaded "Some ''bolshoi''" "''galsize''"
        "Size_component exact_numpy (Size_init ''centrals'')" "''sz''"]
  have "map_option (\<lambda>m. keys (galaxy_table m))
          (mock (snd (populate_mock bolshoi_downloaded (Some ''bolshoi'') (size_model ''galsize''))))
        = map_option (\<lambda>m. keys (galaxy_table m))
            (mock (snd (populate_mock bolshoi_downloaded (Some ''bolshoi'') (size_model ''sz''))))"
    unfolding size_model_def by blast
  with one show ?thesis by simp
qed

end
